theory Spec2Isabelle
  imports Complex_Main "HOL-Library.Word"
begin

section \<open>Strings of the source language\<close>

text \<open>
  The provider is TypeScript. A string there is a sequence of UTF-16 code units:
  \<^verbatim>\<open>length\<close>, \<^verbatim>\<open>slice\<close>, \<^verbatim>\<open>trim\<close> and \<^verbatim>\<open>includes\<close> all count and compare code units.
  The two string constants of the provider contain characters outside ASCII (an en dash
  U+2013 in the system prompt, an em dash U+2014 in the fallback message), each of which is
  one code unit, so a string is modelled as a list of 16-bit words. Wherever the
  development says "character" it means one such code unit, which is what the source's
  \<^verbatim>\<open>length\<close> counts.
\<close>

type_synonym jsstring = "16 word list"

definition ascii :: "string \<Rightarrow> jsstring" where
  "ascii s = map of_char s"

text \<open>
  \<^verbatim>\<open>String.prototype.trim\<close> removes leading and trailing code units that are WhiteSpace or
  LineTerminator of the language standard: TAB, LF, VT, FF, CR, SP, NBSP, U+1680,
  U+2000 to U+200A, U+2028, U+2029, U+202F, U+205F, U+3000 and U+FEFF.
\<close>

definition isWhiteSpace :: "16 word \<Rightarrow> bool" where
  "isWhiteSpace c \<longleftrightarrow>
     c = 0x0009 \<or> c = 0x000A \<or> c = 0x000B \<or> c = 0x000C \<or> c = 0x000D \<or> c = 0x0020 \<or>
     c = 0x00A0 \<or> c = 0x1680 \<or> (0x2000 \<le> c \<and> c \<le> 0x200A) \<or> c = 0x2028 \<or>
     c = 0x2029 \<or> c = 0x202F \<or> c = 0x205F \<or> c = 0x3000 \<or> c = 0xFEFF"

definition trim :: "jsstring \<Rightarrow> jsstring" where
  "trim s = rev (dropWhile isWhiteSpace (rev (dropWhile isWhiteSpace s)))"

text \<open>\<^verbatim>\<open>s.includes(sub)\<close>: \<open>sub\<close> occurs in \<open>s\<close> as a contiguous run of code units.\<close>

fun string_includes :: "jsstring \<Rightarrow> jsstring \<Rightarrow> bool" where
  "string_includes [] sub = (sub = [])"
| "string_includes (c # cs) sub = (take (length sub) (c # cs) = sub \<or> string_includes cs sub)"

text \<open>
  \<^verbatim>\<open>s.slice(start, end)\<close>: a negative index counts from the end, every index is clamped to
  the string, and an omitted \<^verbatim>\<open>end\<close> is the length.
\<close>

definition slice_index :: "nat \<Rightarrow> int \<Rightarrow> nat" where
  "slice_index len i = (if i < 0 then nat (max (int len + i) 0) else min (nat i) len)"

definition string_slice :: "jsstring \<Rightarrow> int \<Rightarrow> int option \<Rightarrow> jsstring" where
  "string_slice s start stop =
     (let len = length s;
          from = slice_index len start;
          to = (case stop of None \<Rightarrow> len | Some e \<Rightarrow> slice_index len e)
      in if to \<le> from then [] else take (to - from) (drop from s))"

text \<open>\<^verbatim>\<open>parts.join(sep)\<close> on an array of strings.\<close>

fun join :: "jsstring \<Rightarrow> jsstring list \<Rightarrow> jsstring" where
  "join sep [] = []"
| "join sep [x] = x"
| "join sep (x # y # ys) = x @ sep @ join sep (y # ys)"

section \<open>The provider's constants\<close>

definition SYSTEM_PROMPT :: jsstring where
  "SYSTEM_PROMPT =
     ascii ''You are a helpful support agent for a small e-commerce store. Answer clearly and concisely.\<newline>''
     @ ascii ''\<newline>''
     @ ascii ''FAQ Domain Knowledge:\<newline>''
     @ ascii ''- Shipping: We ship worldwide with delivery in 5'' @ [0x2013] @ ascii ''7 business days\<newline>''
     @ ascii ''- Returns: 30-day return & refund policy\<newline>''
     @ ascii ''- Support Hours: 9am'' @ [0x2013] @ ascii ''6pm IST, Monday'' @ [0x2013] @ ascii ''Saturday\<newline>''
     @ ascii ''- Free Shipping: Free shipping to USA on orders over $50\<newline>''
     @ ascii ''\<newline>''
     @ ascii ''Keep responses helpful, professional, and concise.''"

definition MAX_INPUT_TOKENS :: nat where
  "MAX_INPUT_TOKENS = 4000"

definition MAX_RETRIES :: nat where
  "MAX_RETRIES = 3"

definition RETRY_DELAY_MS :: nat where
  "RETRY_DELAY_MS = 1000"

definition getFallbackMessage :: jsstring where
  "getFallbackMessage =
     ascii ''Sorry '' @ [0x2014]
     @ ascii '' our support agent is having trouble right now. Please try again shortly.''"

section \<open>Prompt assembly\<close>

record turn =
  sender :: jsstring
  "text" :: jsstring

text \<open>
  \<^verbatim>\<open>formatHistory\<close>: the sender is compared with \<^verbatim>\<open>'user'\<close> only, every other sender is
  labelled \<^verbatim>\<open>Assistant\<close>.
\<close>

definition formatHistory :: "turn list \<Rightarrow> jsstring" where
  "formatHistory history =
     join (ascii ''\<newline>'')
       (map (\<lambda>msg. let role = (if sender msg = ascii ''user'' then ascii ''User'' else ascii ''Assistant'')
                   in role @ ascii '': '' @ text msg)
            history)"

text \<open>
  \<^verbatim>\<open>truncateHistory\<close>: the estimate \<^verbatim>\<open>history.length / 4\<close> is a division of numbers, not of
  integers; dividing a length by four is exact in the source's arithmetic, so the estimate
  is the rational number.
\<close>

definition truncateHistory :: "jsstring \<Rightarrow> jsstring" where
  "truncateHistory history =
     (let estimatedTokens = (of_nat (length history) :: rat) / 4
      in if estimatedTokens \<le> of_nat MAX_INPUT_TOKENS then history
         else (let maxLength = MAX_INPUT_TOKENS * 4
               in string_slice history (- int maxLength) None))"

text \<open>
  The first statements of the \<^verbatim>\<open>try\<close> block of \<^verbatim>\<open>generateReply\<close>: the history is
  formatted, truncated and put into the template literal.
\<close>

definition buildPrompt :: "turn list \<Rightarrow> jsstring \<Rightarrow> jsstring" where
  "buildPrompt history userMessage =
     (let conversationHistory = formatHistory history;
          truncatedHistory = truncateHistory conversationHistory
      in SYSTEM_PROMPT @ ascii ''\<newline>\<newline>Conversation History:\<newline>'' @ truncatedHistory
         @ ascii ''\<newline>\<newline>User: '' @ userMessage @ ascii ''\<newline>\<newline>Assistant:'')"

section \<open>The backend and the effects of a call\<close>

text \<open>
  The handler receives whatever was thrown inside the \<^verbatim>\<open>try\<close> block, typed
  \<^verbatim>\<open>unknown\<close>. It does three things with the value: it tests \<^verbatim>\<open>instanceof Error\<close>, it
  reads \<^verbatim>\<open>message\<close> of an \<^verbatim>\<open>Error\<close>, and it applies \<^verbatim>\<open>String\<close> to a value that is not an
  \<^verbatim>\<open>Error\<close>. A thrown value is modelled by what these operations give:

  \<^item> an \<^verbatim>\<open>Error\<close> object with its message. The message is a string, or some other value,
    which is then given by what its \<^verbatim>\<open>includes\<close> does when called with a marker: it throws
    (a TypeError when there is no such method, as for \<^verbatim>\<open>undefined\<close>) or it answers;
  \<^item> any other value, with what \<^verbatim>\<open>String\<close> does on it: it throws (a TypeError for an
    object without \<^verbatim>\<open>toString\<close>, such as \<^verbatim>\<open>Object.create(null)\<close>) or it returns a string.

  The test \<^verbatim>\<open>instanceof\<close>, the property read and the console output are taken not to
  throw.
\<close>

datatype thrown = ErrorObject message | OtherValue "thrown + jsstring"
  and message = StringMessage jsstring | OddMessage "jsstring \<Rightarrow> thrown + bool"

text \<open>
  What one backend request does while the provider waits for it: the request is fulfilled
  within 30 seconds with a response whose \<^verbatim>\<open>text()\<close> returns a string or throws, or it is
  rejected within 30 seconds, or it is still pending when the 30-second timer fires.
  The backend is a function of the attempt number and the prompt, so that it may answer
  every request of one call differently.
\<close>

datatype settlement = Fulfilled "thrown + jsstring" | Rejected thrown | Pending

type_synonym backend = "nat \<Rightarrow> jsstring \<Rightarrow> settlement"

text \<open>
  The effects of the provider that the caller can observe besides the reply: the requests
  sent to the backend, each with its prompt, and the backoff sleeps, each with its delay in
  milliseconds. The generation settings sent with every request are constants
  (\<^verbatim>\<open>maxOutputTokens\<close> 500, \<^verbatim>\<open>temperature\<close> 0.7) and are not recorded. Console output
  is left out; no branch depends on it.
\<close>

datatype event = Call jsstring | Sleep nat

text \<open>
  \<^verbatim>\<open>Promise.race\<close> of the request with the timeout promise, then \<^verbatim>\<open>result.response.text()\<close>:
  the text on success (\<open>Inr\<close>), the thrown value otherwise (\<open>Inl\<close>).
\<close>

definition awaited :: "settlement \<Rightarrow> thrown + jsstring" where
  "awaited s =
     (case s of
        Fulfilled response \<Rightarrow> response
      | Rejected error \<Rightarrow> Inl error
      | Pending \<Rightarrow> Inl (ErrorObject (StringMessage (ascii ''LLM request timeout''))))"

section \<open>generateReply\<close>

text \<open>
  The \<^verbatim>\<open>try\<close> block of one attempt. It sends one request and either returns from
  \<^verbatim>\<open>generateReply\<close> with a value (\<open>Inr\<close>) or throws (\<open>Inl\<close>).
\<close>

definition generateReply_try :: "backend \<Rightarrow> turn list \<Rightarrow> jsstring \<Rightarrow> nat \<Rightarrow> event \<times> (thrown + jsstring)" where
  "generateReply_try be history userMessage attempt =
     (let prompt = buildPrompt history userMessage
      in (Call prompt,
          case awaited (be attempt prompt) of
            Inl error \<Rightarrow> Inl error
          | Inr txt \<Rightarrow>
              if txt = [] \<or> length (trim txt) = 0 then Inr getFallbackMessage
              else Inr (string_slice (trim txt) 0 (Some 2000))))"

text \<open>
  The \<^verbatim>\<open>catch\<close> block. Its first statement takes the message of an \<^verbatim>\<open>Error\<close> and the
  string \<^verbatim>\<open>Unknown error\<close> for any other value.
\<close>

definition errorMessage :: "thrown \<Rightarrow> message" where
  "errorMessage error =
     (case error of
        ErrorObject message \<Rightarrow> message
      | OtherValue string_of \<Rightarrow> StringMessage (ascii ''Unknown error''))"

text \<open>
  Its second statement assigns \<^verbatim>\<open>lastError\<close>: the \<^verbatim>\<open>Error\<close> itself, or a new \<^verbatim>\<open>Error\<close>
  made of \<^verbatim>\<open>String(error)\<close>. The conversion may throw (\<open>Inl\<close>), and then the handler
  throws. The variable is never read afterwards.
\<close>

definition lastError :: "thrown \<Rightarrow> thrown + thrown" where
  "lastError error =
     (case error of
        ErrorObject message \<Rightarrow> Inr error
      | OtherValue string_of \<Rightarrow>
          (case string_of of Inl e \<Rightarrow> Inl e | Inr s \<Rightarrow> Inr (ErrorObject (StringMessage s))))"

text \<open>
  The condition of the \<^verbatim>\<open>if\<close>: the message is searched for five markers, joined by
  \<^verbatim>\<open>||\<close>. On a string this is a test and cannot throw.
\<close>

definition nonRetryable :: "jsstring \<Rightarrow> bool" where
  "nonRetryable msg \<longleftrightarrow>
     string_includes msg (ascii ''API_KEY'') \<or>
     string_includes msg (ascii ''401'') \<or>
     string_includes msg (ascii ''403'') \<or>
     string_includes msg (ascii ''400'') \<or>
     string_includes msg (ascii ''invalid'')"

text \<open>
  On a message that is not a string each \<^verbatim>\<open>includes\<close> is a call that may throw; \<^verbatim>\<open>||\<close>
  evaluates its right operand only when the left one is false.
\<close>

definition orElse :: "thrown + bool \<Rightarrow> thrown + bool \<Rightarrow> thrown + bool" where
  "orElse left right = (case left of Inl e \<Rightarrow> Inl e | Inr True \<Rightarrow> Inr True | Inr False \<Rightarrow> right)"

definition includesMarker :: "message \<Rightarrow> thrown + bool" where
  "includesMarker msg =
     (case msg of
        StringMessage s \<Rightarrow> Inr (nonRetryable s)
      | OddMessage includes_of \<Rightarrow>
          orElse (includes_of (ascii ''API_KEY''))
            (orElse (includes_of (ascii ''401''))
              (orElse (includes_of (ascii ''403''))
                (orElse (includes_of (ascii ''400''))
                  (includes_of (ascii ''invalid''))))))"

text \<open>
  What the three statements make of a thrown value: the failure is not to be retried, or it
  is to be retried, or the handler itself throws.
\<close>

datatype classification = NonRetryable | Retryable | HandlerThrows thrown

definition classify :: "thrown \<Rightarrow> classification" where
  "classify error =
     (let msg = errorMessage error
      in case lastError error of
           Inl e \<Rightarrow> HandlerThrows e
         | Inr stored \<Rightarrow>
             (case includesMarker msg of
                Inl e \<Rightarrow> HandlerThrows e
              | Inr True \<Rightarrow> NonRetryable
              | Inr False \<Rightarrow> Retryable))"

text \<open>
  The handler returns from \<^verbatim>\<open>generateReply\<close>, or falls through to the next iteration,
  after a sleep when this was not the last attempt, or throws; what it throws leaves
  \<^verbatim>\<open>generateReply\<close>, there is no handler around it.
\<close>

datatype handled = Return jsstring | Continue "event list" | Throw thrown

definition generateReply_catch :: "thrown \<Rightarrow> nat \<Rightarrow> handled" where
  "generateReply_catch error attempt =
     (case classify error of
        HandlerThrows e \<Rightarrow> Throw e
      | NonRetryable \<Rightarrow> Return getFallbackMessage
      | Retryable \<Rightarrow>
          if attempt < MAX_RETRIES - 1
          then (let delay = RETRY_DELAY_MS * 2 ^ attempt in Continue [Sleep delay])
          else Continue [])"

text \<open>
  The \<^verbatim>\<open>for\<close> loop, from the given attempt on, and the statement after it. The result is
  the list of effects in the order they happen and the way the call ends: with the value
  returned (\<open>Inr\<close>) or with the value thrown to the caller (\<open>Inl\<close>).
\<close>

function generateReply_loop :: "backend \<Rightarrow> turn list \<Rightarrow> jsstring \<Rightarrow> nat \<Rightarrow> event list \<times> (thrown + jsstring)" where
  "generateReply_loop be history userMessage attempt =
     (if attempt < MAX_RETRIES then
        (case generateReply_try be history userMessage attempt of
           (call, Inr v) \<Rightarrow> ([call], Inr v)
         | (call, Inl error) \<Rightarrow>
             (case generateReply_catch error attempt of
                Return v \<Rightarrow> ([call], Inr v)
              | Throw e \<Rightarrow> ([call], Inl e)
              | Continue pause \<Rightarrow>
                  (let (es, r) = generateReply_loop be history userMessage (attempt + 1)
                   in (call # pause @ es, r))))
      else ([], Inr getFallbackMessage))"
  by pat_completeness auto
termination
  by (relation "measure (\<lambda>(be, history, userMessage, attempt). MAX_RETRIES - attempt)") auto

declare generateReply_loop.simps [simp del]

definition generateReply :: "backend \<Rightarrow> turn list \<Rightarrow> jsstring \<Rightarrow> thrown + jsstring" where
  "generateReply be history userMessage = snd (generateReply_loop be history userMessage 0)"

definition generateReply_effects :: "backend \<Rightarrow> turn list \<Rightarrow> jsstring \<Rightarrow> event list" where
  "generateReply_effects be history userMessage = fst (generateReply_loop be history userMessage 0)"

text \<open>The requests and the sleeps among the effects, in order.\<close>

fun calls :: "event list \<Rightarrow> jsstring list" where
  "calls [] = []"
| "calls (Call prompt # es) = prompt # calls es"
| "calls (Sleep delay # es) = calls es"

fun sleeps :: "event list \<Rightarrow> nat list" where
  "sleeps [] = []"
| "sleeps (Call prompt # es) = sleeps es"
| "sleeps (Sleep delay # es) = delay # sleeps es"

text \<open>
  The way a call ends when the attempt with the given outcome is its last one: with the
  capped text of a success with text that is not blank, with what the handler throws, and
  with the fallback message otherwise.
\<close>

definition last_value :: "thrown + jsstring \<Rightarrow> thrown + jsstring" where
  "last_value r =
     (case r of
        Inl error \<Rightarrow> (case classify error of HandlerThrows e \<Rightarrow> Inl e | NonRetryable \<Rightarrow> Inr getFallbackMessage
                       | Retryable \<Rightarrow> Inr getFallbackMessage)
      | Inr txt \<Rightarrow> if trim txt = [] then Inr getFallbackMessage else Inr (take 2000 (trim txt)))"

section \<open>The state machine of the specification\<close>




text \<open>
  The serialization of one turn in the words of the specification: the sender
  \<^verbatim>\<open>user\<close> gets the label \<^verbatim>\<open>User\<close>, the sender \<^verbatim>\<open>ai\<close> the label \<^verbatim>\<open>Assistant\<close>. The
  specification knows no other sender.
\<close>

definition spec_line :: "turn \<Rightarrow> jsstring" where
  "spec_line t =
     (if sender t = ascii ''user'' then ascii ''User: '' @ text t
      else if sender t = ascii ''ai'' then ascii ''Assistant: '' @ text t
      else [])"

section \<open>Example backends and inputs\<close>

definition greeting :: "turn list" where
  "greeting = [\<lparr>sender = ascii ''user'', text = ascii ''Hi''\<rparr>]"

text \<open>A backend that never answers within the 30 seconds.\<close>

definition silent_backend :: backend where
  "silent_backend attempt prompt = Pending"

text \<open>A backend that rejects the credential.\<close>

definition unauthorized_backend :: backend where
  "unauthorized_backend attempt prompt =
     Rejected (ErrorObject (StringMessage (ascii ''[401 Unauthorized] API key not valid'')))"

text \<open>A backend that answers every request with a rate-limit error.\<close>

definition rate_limited_backend :: backend where
  "rate_limited_backend attempt prompt =
     Rejected (ErrorObject (StringMessage (ascii ''[429 Too Many Requests] You exceeded your current quota. Please retry in 28.400347014s.'')))"



text \<open>A backend that times out once and then answers with white space only.\<close>

definition blank_backend :: backend where
  "blank_backend attempt prompt =
     (if attempt = 0 then Pending else Fulfilled (Inr (ascii '' \<newline> '')))"

text \<open>A backend that answers at once.\<close>

definition returns_policy_backend :: backend where
  "returns_policy_backend attempt prompt = Fulfilled (Inr (ascii '' 30-day returns.\<newline>''))"

text \<open>A backend that times out twice and then answers.\<close>

definition slow_backend :: backend where
  "slow_backend attempt prompt =
     (if attempt < 2 then Pending else Fulfilled (Inr (ascii ''Shipped in 5-7 days.'')))"

text \<open>A history of one turn whose serialization is longer than 16000 code units.\<close>

definition long_history :: "turn list" where
  "long_history = [\<lparr>sender = ascii ''user'', text = replicate 16000 0x61\<rparr>]"

text \<open>A history of two turns.\<close>

definition dialogue :: "turn list" where
  "dialogue = [\<lparr>sender = ascii ''user'', text = ascii ''Hi''\<rparr>,
               \<lparr>sender = ascii ''ai'', text = ascii ''Hello!''\<rparr>]"

text \<open>
  A backend that behaves as \<open>slow_backend\<close> during the three attempts and differently
  afterwards.
\<close>

definition slow_backend_later :: backend where
  "slow_backend_later attempt prompt =
     (if attempt < 2 then Pending
      else if attempt = 2 then Fulfilled (Inr (ascii ''Shipped in 5-7 days.''))
      else Rejected (OtherValue (Inr (ascii ''later''))))"

section \<open>Facts about the string operations\<close>

lemma trim_Nil_iff: "trim s = [] \<longleftrightarrow> (\<forall>c\<in>set s. isWhiteSpace c)"
proof
  assume "trim s = []"
  then have "dropWhile isWhiteSpace (rev (dropWhile isWhiteSpace s)) = []"
    by (simp add: trim_def)
  then have all: "\<forall>c\<in>set (dropWhile isWhiteSpace s). isWhiteSpace c"
    by simp
  have "dropWhile isWhiteSpace s = []"
  proof (rule ccontr)
    assume ne: "dropWhile isWhiteSpace s \<noteq> []"
    then have "\<not> isWhiteSpace (hd (dropWhile isWhiteSpace s))"
      by (rule hd_dropWhile)
    moreover from ne have "hd (dropWhile isWhiteSpace s) \<in> set (dropWhile isWhiteSpace s)"
      by simp
    ultimately show False using all by blast
  qed
  then show "\<forall>c\<in>set s. isWhiteSpace c"
    by simp
next
  assume "\<forall>c\<in>set s. isWhiteSpace c"
  then show "trim s = []"
    by (auto simp: trim_def dest: set_dropWhileD)
qed

lemma slice_cap: "string_slice s 0 (Some (int n)) = take n s"
  by (simp add: string_slice_def slice_index_def Let_def min_def)

lemma slice_cap_2000: "string_slice s 0 (Some 2000) = take 2000 s"
  using slice_cap [of s 2000] by simp

lemma slice_tail: "0 < n \<Longrightarrow> n < length s \<Longrightarrow> string_slice s (- int n) None = drop (length s - n) s"
  by (auto simp: string_slice_def slice_index_def Let_def max_def nat_diff_distrib)

lemma truncateHistory_short: "length s \<le> 16000 \<Longrightarrow> truncateHistory s = s"
  by (simp add: truncateHistory_def MAX_INPUT_TOKENS_def Let_def)

lemma truncateHistory_long: "16000 < length s \<Longrightarrow> truncateHistory s = drop (length s - 16000) s"
  using slice_tail [of 16000 s]
  by (simp add: truncateHistory_def MAX_INPUT_TOKENS_def Let_def)

section \<open>The classification of thrown values\<close>

lemma classify_string:
  "classify (ErrorObject (StringMessage s)) = (if nonRetryable s then NonRetryable else Retryable)"
  by (simp add: classify_def errorMessage_def lastError_def includesMarker_def)

lemma classify_unknown:
  "classify (OtherValue (Inr s)) = Retryable"
  by (simp add: classify_def errorMessage_def lastError_def includesMarker_def nonRetryable_def ascii_def)


lemma classify_odd_message:
  "includes_of (ascii ''API_KEY'') = Inl e \<Longrightarrow>
   classify (ErrorObject (OddMessage includes_of)) = HandlerThrows e"
  by (simp add: classify_def errorMessage_def lastError_def includesMarker_def orElse_def)

lemma classify_timeout:
  "classify (ErrorObject (StringMessage (ascii ''LLM request timeout''))) = Retryable"
  by (simp add: classify_string nonRetryable_def ascii_def)

section \<open>One iteration of the loop\<close>

lemma loop_exit:
  "\<not> attempt < MAX_RETRIES \<Longrightarrow> generateReply_loop be h m attempt = ([], Inr getFallbackMessage)"
  by (simp add: generateReply_loop.simps)

lemma loop_success:
  "attempt < MAX_RETRIES \<Longrightarrow> awaited (be attempt (buildPrompt h m)) = Inr t \<Longrightarrow>
   generateReply_loop be h m attempt =
     ([Call (buildPrompt h m)], Inr (if trim t = [] then getFallbackMessage else take 2000 (trim t)))"
  by (subst generateReply_loop.simps) (auto simp: generateReply_try_def Let_def slice_cap_2000 trim_def)

lemma loop_abandon:
  "attempt < MAX_RETRIES \<Longrightarrow> awaited (be attempt (buildPrompt h m)) = Inl e \<Longrightarrow>
   classify e = NonRetryable \<Longrightarrow>
   generateReply_loop be h m attempt = ([Call (buildPrompt h m)], Inr getFallbackMessage)"
  by (subst generateReply_loop.simps) (simp add: generateReply_try_def generateReply_catch_def Let_def)

lemma loop_throw:
  "attempt < MAX_RETRIES \<Longrightarrow> awaited (be attempt (buildPrompt h m)) = Inl e \<Longrightarrow>
   classify e = HandlerThrows x \<Longrightarrow>
   generateReply_loop be h m attempt = ([Call (buildPrompt h m)], Inl x)"
  by (subst generateReply_loop.simps) (simp add: generateReply_try_def generateReply_catch_def Let_def)

lemma loop_retry:
  "attempt < MAX_RETRIES \<Longrightarrow> awaited (be attempt (buildPrompt h m)) = Inl e \<Longrightarrow>
   classify e = Retryable \<Longrightarrow>
   generateReply_loop be h m attempt =
     (Call (buildPrompt h m)
        # (if attempt < MAX_RETRIES - 1 then [Sleep (RETRY_DELAY_MS * 2 ^ attempt)] else [])
        @ fst (generateReply_loop be h m (attempt + 1)),
      snd (generateReply_loop be h m (attempt + 1)))"
  by (subst generateReply_loop.simps)
     (simp add: generateReply_try_def generateReply_catch_def Let_def split: prod.splits)

section \<open>Facts about the whole loop\<close>

lemma loop_cases [case_names exit success abandon throw retry]:
  assumes "\<not> attempt < MAX_RETRIES \<Longrightarrow> P"
    and "\<And>t. attempt < MAX_RETRIES \<Longrightarrow> awaited (be attempt (buildPrompt h m)) = Inr t \<Longrightarrow> P"
    and "\<And>e. attempt < MAX_RETRIES \<Longrightarrow> awaited (be attempt (buildPrompt h m)) = Inl e \<Longrightarrow>
           classify e = NonRetryable \<Longrightarrow> P"
    and "\<And>e x. attempt < MAX_RETRIES \<Longrightarrow> awaited (be attempt (buildPrompt h m)) = Inl e \<Longrightarrow>
           classify e = HandlerThrows x \<Longrightarrow> P"
    and "\<And>e. attempt < MAX_RETRIES \<Longrightarrow> awaited (be attempt (buildPrompt h m)) = Inl e \<Longrightarrow>
           classify e = Retryable \<Longrightarrow> P"
  shows P
proof (cases "attempt < MAX_RETRIES")
  case False
  then show ?thesis by (rule assms(1))
next
  case True
  show ?thesis
  proof (cases "awaited (be attempt (buildPrompt h m))")
    case (Inr t)
    with True show ?thesis by (rule assms(2))
  next
    case (Inl e)
    with True show ?thesis
      by (cases "classify e") (auto intro: assms(3) assms(4) assms(5))
  qed
qed

lemma loop_calls_prompt:
  "p \<in> set (calls (fst (generateReply_loop be h m attempt))) \<Longrightarrow> p = buildPrompt h m"
proof (induction "MAX_RETRIES - attempt" arbitrary: attempt)
  case 0
  then show ?case by (simp add: loop_exit)
next
  case (Suc n)
  show ?case
  proof (cases rule: loop_cases [where attempt = attempt and be = be and h = h and m = m])
    case exit
    with Suc.prems show ?thesis by (simp add: loop_exit)
  next
    case (success t)
    with Suc.prems show ?thesis by (simp add: loop_success)
  next
    case (abandon e)
    with Suc.prems show ?thesis by (simp add: loop_abandon)
  next
    case (throw e x)
    with Suc.prems show ?thesis by (simp add: loop_throw)
  next
    case (retry e)
    from Suc.hyps(2) have "n = MAX_RETRIES - (attempt + 1)" by simp
    from Suc.hyps(1) [OF this] Suc.prems retry show ?thesis
      by (auto simp: loop_retry split: if_splits)
  qed
qed


lemma loop_cong:
  "\<forall>k<MAX_RETRIES. be1 k (buildPrompt h m) = be2 k (buildPrompt h m) \<Longrightarrow>
   generateReply_loop be1 h m attempt = generateReply_loop be2 h m attempt"
proof (induction "MAX_RETRIES - attempt" arbitrary: attempt)
  case 0
  then show ?case by (simp add: loop_exit)
next
  case (Suc n)
  from Suc.hyps(2) have n: "n = MAX_RETRIES - (attempt + 1)" by simp
  note IH = Suc.hyps(1) [OF n Suc.prems]
  show ?case
  proof (cases rule: loop_cases [where attempt = attempt and be = be1 and h = h and m = m])
    case exit
    then show ?thesis by (simp add: loop_exit)
  next
    case (success t)
    with Suc.prems have "awaited (be2 attempt (buildPrompt h m)) = Inr t" by simp
    with success show ?thesis by (simp add: loop_success)
  next
    case (abandon e)
    with Suc.prems have "awaited (be2 attempt (buildPrompt h m)) = Inl e" by simp
    with abandon show ?thesis by (simp add: loop_abandon)
  next
    case (throw e x)
    with Suc.prems have "awaited (be2 attempt (buildPrompt h m)) = Inl e" by simp
    with throw show ?thesis by (simp add: loop_throw)
  next
    case (retry e)
    with Suc.prems have "awaited (be2 attempt (buildPrompt h m)) = Inl e" by simp
    with retry IH show ?thesis by (simp add: loop_retry)
  qed
qed

lemma calls_append: "calls (es @ fs) = calls es @ calls fs"
  by (induction es rule: calls.induct) simp_all

lemma sleeps_append: "sleeps (es @ fs) = sleeps es @ sleeps fs"
  by (induction es rule: sleeps.induct) simp_all

lemma fallback_nonempty: "getFallbackMessage \<noteq> []"
  by (simp add: getFallbackMessage_def ascii_def)

lemma fallback_length: "length getFallbackMessage = 80"
  by (simp add: getFallbackMessage_def ascii_def)

lemma loop_retries:
  assumes "a \<le> k" and "k < MAX_RETRIES"
    and "\<forall>j. a \<le> j \<and> j < k \<longrightarrow>
           (\<exists>e. awaited (be j (buildPrompt h m)) = Inl e \<and> classify e = Retryable)"
  shows "generateReply_loop be h m a =
           (concat (map (\<lambda>j. [Call (buildPrompt h m), Sleep (RETRY_DELAY_MS * 2 ^ j)]) [a..<k])
              @ fst (generateReply_loop be h m k),
            snd (generateReply_loop be h m k))"
  using assms
proof (induction k rule: dec_induct)
  case base
  then show ?case by simp
next
  case (step n)
  from step.prems have n: "n < MAX_RETRIES" "n < MAX_RETRIES - 1" by simp_all
  from step.prems step.hyps obtain e where
    e: "awaited (be n (buildPrompt h m)) = Inl e" "classify e = Retryable"
    by auto
  have IH: "generateReply_loop be h m a =
           (concat (map (\<lambda>j. [Call (buildPrompt h m), Sleep (RETRY_DELAY_MS * 2 ^ j)]) [a..<n])
              @ fst (generateReply_loop be h m n),
            snd (generateReply_loop be h m n))"
    using step.IH step.prems n by simp
  have "generateReply_loop be h m n =
     (Call (buildPrompt h m) # Sleep (RETRY_DELAY_MS * 2 ^ n) # fst (generateReply_loop be h m (Suc n)),
      snd (generateReply_loop be h m (Suc n)))"
    using loop_retry [of n be h m e, OF n(1) e] n(2) by simp
  with IH step.hyps show ?case by simp
qed

lemma loop_last_call:
  assumes "attempt < MAX_RETRIES"
  shows "0 < length (calls (fst (generateReply_loop be h m attempt)))
       \<and> attempt + length (calls (fst (generateReply_loop be h m attempt))) \<le> MAX_RETRIES
       \<and> snd (generateReply_loop be h m attempt) =
           last_value (awaited (be (attempt + length (calls (fst (generateReply_loop be h m attempt))) - 1) (buildPrompt h m)))"
  using assms
proof (induction "MAX_RETRIES - attempt" arbitrary: attempt)
  case 0
  then show ?case by simp
next
  case (Suc n)
  show ?case
  proof (cases rule: loop_cases [where attempt = attempt and be = be and h = h and m = m])
    case exit
    with Suc.prems show ?thesis by simp
  next
    case (success t)
    then show ?thesis by (simp add: loop_success last_value_def)
  next
    case (abandon e)
    then show ?thesis by (simp add: loop_abandon last_value_def)
  next
    case (throw e x)
    then show ?thesis by (simp add: loop_throw last_value_def)
  next
    case (retry e)
    define L where "L = generateReply_loop be h m (attempt + 1)"
    define sl where "sl = (if attempt < MAX_RETRIES - 1 then [Sleep (RETRY_DELAY_MS * 2 ^ attempt)] else [])"
    have step: "generateReply_loop be h m attempt = (Call (buildPrompt h m) # sl @ fst L, snd L)"
      unfolding L_def sl_def using retry by (rule loop_retry)
    have sl: "calls sl = []"
      by (simp add: sl_def)
    have cnt: "length (calls (fst (generateReply_loop be h m attempt))) = Suc (length (calls (fst L)))"
      by (simp add: step calls_append sl)
    show ?thesis
    proof (cases "attempt + 1 < MAX_RETRIES")
      case True
      from Suc.hyps(2) have "n = MAX_RETRIES - (attempt + 1)" by simp
      from Suc.hyps(1) [OF this True]
      have IH: "0 < length (calls (fst L))"
        "attempt + 1 + length (calls (fst L)) \<le> MAX_RETRIES"
        "snd L = last_value (awaited (be (attempt + 1 + length (calls (fst L)) - 1) (buildPrompt h m)))"
        unfolding L_def by blast+
      have "attempt + Suc (length (calls (fst L))) - 1 = attempt + 1 + length (calls (fst L)) - 1"
        by simp
      then have "snd (generateReply_loop be h m attempt)
          = last_value (awaited (be (attempt + Suc (length (calls (fst L))) - 1) (buildPrompt h m)))"
        using IH(3) by (simp only: step snd_conv)
      moreover have "attempt + Suc (length (calls (fst L))) \<le> MAX_RETRIES"
        using IH(2) by simp
      ultimately show ?thesis
        unfolding cnt by blast
    next
      case False
      then have "L = ([], Inr getFallbackMessage)"
        unfolding L_def by (rule loop_exit)
      with retry step show ?thesis
        by (simp add: sl last_value_def)
    qed
  qed
qed

lemma join_snoc: "join sep (xs @ [x]) = (if xs = [] then x else join sep xs @ sep @ x)"
  by (induction sep xs rule: join.induct) simp_all

lemma formatHistory_spec:
  "\<forall>t\<in>set history. sender t = ascii ''user'' \<or> sender t = ascii ''ai'' \<Longrightarrow>
   map (\<lambda>msg. let role = (if sender msg = ascii ''user'' then ascii ''User'' else ascii ''Assistant'')
               in role @ ascii '': '' @ text msg) history
   = map spec_line history"
  by (induction history) (auto simp: spec_line_def Let_def ascii_def)

lemma first_call: "calls (fst (generateReply_loop be h m 0)) \<noteq> []"
  using loop_last_call [of 0 be h m] by (auto simp: MAX_RETRIES_def)

section \<open>How a call ends\<close>

lemma generateReply_outcome:
  "0 < length (calls (generateReply_effects be history userMessage))
   \<and> length (calls (generateReply_effects be history userMessage)) \<le> MAX_RETRIES
   \<and> generateReply be history userMessage =
       last_value (awaited (be (length (calls (generateReply_effects be history userMessage)) - 1)
                               (buildPrompt history userMessage)))"
proof -
  have "0 < MAX_RETRIES"
    by (simp add: MAX_RETRIES_def)
  from loop_last_call [OF this, of be history userMessage] show ?thesis
    by (simp add: generateReply_def generateReply_effects_def)
qed

lemma generateReply_returned_bounded:
  assumes "generateReply be history userMessage = Inr s"
  shows "s \<noteq> [] \<and> length s \<le> 2000"
proof -
  from generateReply_outcome [of be history userMessage] assms
  have "s = getFallbackMessage \<or> (\<exists>t. trim t \<noteq> [] \<and> s = take 2000 (trim t))"
    by (auto simp: last_value_def split: sum.splits if_splits classification.splits)
  then show ?thesis
    using fallback_nonempty by (auto simp: fallback_length)
qed

section \<open>Claims about single outcomes\<close>

text \<open>
  Claim C3. If the first attempt fails with an error that the handler classifies as
  non-retryable (its message contains one of the markers \<^verbatim>\<open>API_KEY\<close>, \<^verbatim>\<open>401\<close>, \<^verbatim>\<open>403\<close>,
  \<^verbatim>\<open>400\<close>, \<^verbatim>\<open>invalid\<close>, the signatures of authentication, authorization and validation
  failures; for an \<^verbatim>\<open>Error\<close> with a string message \<open>s\<close> this is \<open>nonRetryable s\<close>), then \<^verbatim>\<open>generateReply\<close> sends exactly one request to the backend, does not
  sleep, and returns the fallback message.
\<close>

theorem nonretryable_first_attempt:
  assumes "awaited (be 0 (buildPrompt history userMessage)) = Inl error"
    and "classify error = NonRetryable"
  shows "generateReply_effects be history userMessage = [Call (buildPrompt history userMessage)]
       \<and> generateReply be history userMessage = Inr getFallbackMessage"
  using assms loop_abandon [of 0 be history userMessage error]
  by (simp add: generateReply_def generateReply_effects_def MAX_RETRIES_def)

theorem nonretryable_first_attempt_witness:
  "generateReply_effects unauthorized_backend greeting (ascii ''Hello'')
     = [Call (buildPrompt greeting (ascii ''Hello''))]
   \<and> generateReply unauthorized_backend greeting (ascii ''Hello'') = Inr getFallbackMessage"
proof -
  let ?e = "ErrorObject (StringMessage (ascii ''[401 Unauthorized] API key not valid''))"
  have a: "awaited (unauthorized_backend 0 (buildPrompt greeting (ascii ''Hello''))) = Inl ?e"
    by (simp add: awaited_def unauthorized_backend_def)
  have b: "classify ?e = NonRetryable"
    by (simp add: classify_string nonRetryable_def ascii_def)
  show ?thesis
    by (rule nonretryable_first_attempt [of unauthorized_backend greeting "ascii ''Hello''" ?e, OF a b])
qed

text \<open>
  Claim C6. If the first attempt succeeds with a text \<open>X\<close> whose trimmed form is not empty,
  then \<^verbatim>\<open>generateReply\<close> returns \<open>X\<close> trimmed and cut to its first 2000 code units, sends
  exactly one request to the backend and does not sleep.
\<close>

theorem first_attempt_success:
  assumes "awaited (be 0 (buildPrompt history userMessage)) = Inr X"
    and "trim X \<noteq> []"
  shows "generateReply be history userMessage = Inr (string_slice (trim X) 0 (Some 2000))
       \<and> generateReply be history userMessage = Inr (take 2000 (trim X))
       \<and> generateReply_effects be history userMessage = [Call (buildPrompt history userMessage)]"
  using assms loop_success [of 0 be history userMessage X]
  by (simp add: generateReply_def generateReply_effects_def MAX_RETRIES_def slice_cap_2000)

theorem first_attempt_success_witness:
  "generateReply returns_policy_backend greeting (ascii ''What is your return policy?'')
     = Inr (ascii ''30-day returns.'')
   \<and> generateReply_effects returns_policy_backend greeting (ascii ''What is your return policy?'')
     = [Call (buildPrompt greeting (ascii ''What is your return policy?''))]"
proof -
  let ?X = "ascii '' 30-day returns.\<newline>''"
  have a: "awaited (returns_policy_backend 0 (buildPrompt greeting (ascii ''What is your return policy?''))) = Inr ?X"
    by (simp add: awaited_def returns_policy_backend_def)
  have t: "trim ?X = ascii ''30-day returns.''"
    by (simp add: trim_def ascii_def isWhiteSpace_def)
  then have b: "trim ?X \<noteq> []"
    by (simp add: ascii_def)
  have c: "take 2000 (trim ?X) = ascii ''30-day returns.''"
    unfolding t by (simp add: ascii_def)
  note r = first_attempt_success
      [of returns_policy_backend greeting "ascii ''What is your return policy?''" ?X, OF a b]
  from r have "generateReply returns_policy_backend greeting (ascii ''What is your return policy?'')
      = Inr (take 2000 (trim ?X))"
    by blast
  then have "generateReply returns_policy_backend greeting (ascii ''What is your return policy?'')
      = Inr (ascii ''30-day returns.'')"
    by (simp only: c)
  with r show ?thesis
    by blast
qed

section \<open>The handler's own failure\<close>


section \<open>Claims about retries\<close>

text \<open>
  Claim C2. If every attempt fails with an error that the handler classifies as retryable,
  then \<^verbatim>\<open>generateReply\<close> sends exactly \<^verbatim>\<open>MAX_RETRIES\<close> = 3 requests, sleeps
  \<^verbatim>\<open>RETRY_DELAY_MS\<close> times \<open>2 ^ k\<close> milliseconds after the failed attempt \<open>k\<close> for
  \<open>k < MAX_RETRIES - 1\<close> (1000 and then 2000 milliseconds), does not sleep after the last
  attempt, and returns the fallback message.
\<close>

theorem retries_exhausted:
  assumes "\<forall>k<MAX_RETRIES. \<exists>error.
             awaited (be k (buildPrompt history userMessage)) = Inl error
             \<and> classify error = Retryable"
  shows "generateReply_effects be history userMessage =
           [Call (buildPrompt history userMessage), Sleep 1000,
            Call (buildPrompt history userMessage), Sleep 2000,
            Call (buildPrompt history userMessage)]
       \<and> generateReply_effects be history userMessage =
           concat (map (\<lambda>k. Call (buildPrompt history userMessage)
                              # (if k < MAX_RETRIES - 1 then [Sleep (RETRY_DELAY_MS * 2 ^ k)] else []))
                       [0..<MAX_RETRIES])
       \<and> length (calls (generateReply_effects be history userMessage)) = MAX_RETRIES
       \<and> generateReply be history userMessage = Inr getFallbackMessage"
proof -
  let ?p = "buildPrompt history userMessage"
  have "(0::nat) < MAX_RETRIES"
    by (simp add: MAX_RETRIES_def)
  from assms [rule_format, OF this]
  obtain e0 where e0: "awaited (be 0 ?p) = Inl e0" "classify e0 = Retryable"
    by blast
  have "(1::nat) < MAX_RETRIES"
    by (simp add: MAX_RETRIES_def)
  from assms [rule_format, OF this]
  obtain e1 where e1: "awaited (be 1 ?p) = Inl e1" "classify e1 = Retryable"
    by blast
  have "(2::nat) < MAX_RETRIES"
    by (simp add: MAX_RETRIES_def)
  from assms [rule_format, OF this]
  obtain e2 where e2: "awaited (be 2 ?p) = Inl e2" "classify e2 = Retryable"
    by blast
  have l3: "generateReply_loop be history userMessage 3 = ([], Inr getFallbackMessage)"
    by (rule loop_exit) (simp add: MAX_RETRIES_def)
  have l2: "generateReply_loop be history userMessage 2 = ([Call ?p], Inr getFallbackMessage)"
    using loop_retry [of 2 be history userMessage e2] e2 l3
    by (simp add: MAX_RETRIES_def)
  have l1: "generateReply_loop be history userMessage 1 = ([Call ?p, Sleep 2000, Call ?p], Inr getFallbackMessage)"
    using loop_retry [of 1 be history userMessage e1] e1 l2 [unfolded numeral_2_eq_2]
    by (simp add: MAX_RETRIES_def RETRY_DELAY_MS_def)
  have l0: "generateReply_loop be history userMessage 0
      = ([Call ?p, Sleep 1000, Call ?p, Sleep 2000, Call ?p], Inr getFallbackMessage)"
    using loop_retry [of 0 be history userMessage e0] e0 l1
    by (simp add: MAX_RETRIES_def RETRY_DELAY_MS_def)
  have upt3: "[0..<3] = [0, 1, 2]"
    by (simp add: upt_rec)
  show ?thesis
    by (simp add: generateReply_def generateReply_effects_def l0 MAX_RETRIES_def RETRY_DELAY_MS_def upt3)
qed

theorem retries_exhausted_witness:
  "generateReply_effects silent_backend greeting (ascii ''Hello'') =
     [Call (buildPrompt greeting (ascii ''Hello'')), Sleep 1000,
      Call (buildPrompt greeting (ascii ''Hello'')), Sleep 2000,
      Call (buildPrompt greeting (ascii ''Hello''))]
   \<and> generateReply silent_backend greeting (ascii ''Hello'') = Inr getFallbackMessage"
proof -
  have "\<forall>k<MAX_RETRIES. \<exists>error.
      awaited (silent_backend k (buildPrompt greeting (ascii ''Hello''))) = Inl error
      \<and> classify error = Retryable"
    by (simp add: awaited_def silent_backend_def classify_timeout)
  from retries_exhausted [of silent_backend greeting "ascii ''Hello''", OF this]
  show ?thesis by blast
qed

text \<open>
  Claim C5. If attempt \<open>k\<close> is reached (every attempt before it failed with a retryable
  error) and succeeds with a text that is empty or consists of white space only, then
  \<^verbatim>\<open>generateReply\<close> returns the fallback message from that attempt: the request of
  attempt \<open>k\<close> is the last effect of the call, no request and no sleep follow it.
\<close>

theorem blank_success_no_retry:
  assumes "k < MAX_RETRIES"
    and "\<forall>j<k. \<exists>error. awaited (be j (buildPrompt history userMessage)) = Inl error
                         \<and> classify error = Retryable"
    and "awaited (be k (buildPrompt history userMessage)) = Inr X"
    and "\<forall>c\<in>set X. isWhiteSpace c"
  shows "generateReply be history userMessage = Inr getFallbackMessage
       \<and> generateReply_effects be history userMessage =
           concat (map (\<lambda>j. [Call (buildPrompt history userMessage), Sleep (RETRY_DELAY_MS * 2 ^ j)]) [0..<k])
           @ [Call (buildPrompt history userMessage)]
       \<and> length (calls (generateReply_effects be history userMessage)) = k + 1
       \<and> length (sleeps (generateReply_effects be history userMessage)) = k"
proof -
  let ?p = "buildPrompt history userMessage"
  let ?pre = "concat (map (\<lambda>j. [Call ?p, Sleep (RETRY_DELAY_MS * 2 ^ j)]) [0..<k])"
  from assms(4) have blank: "trim X = []"
    by (simp add: trim_Nil_iff)
  have at_k: "generateReply_loop be history userMessage k = ([Call ?p], Inr getFallbackMessage)"
    using loop_success [of k be history userMessage X] assms(1,3) blank by simp
  have "generateReply_loop be history userMessage 0 =
      (?pre @ fst (generateReply_loop be history userMessage k),
       snd (generateReply_loop be history userMessage k))"
    using assms(1,2) by (intro loop_retries) auto
  then have run: "generateReply_loop be history userMessage 0 = (?pre @ [Call ?p], Inr getFallbackMessage)"
    by (simp add: at_k)
  have c: "length (calls (concat (map (\<lambda>j. [Call ?p, Sleep (RETRY_DELAY_MS * 2 ^ j)]) [0..<n]))) = n" for n
    by (induction n) (simp_all add: calls_append)
  have s: "length (sleeps (concat (map (\<lambda>j. [Call ?p, Sleep (RETRY_DELAY_MS * 2 ^ j)]) [0..<n]))) = n" for n
    by (induction n) (simp_all add: sleeps_append)
  show ?thesis
    by (simp add: generateReply_def generateReply_effects_def run calls_append sleeps_append c s)
qed

theorem blank_success_no_retry_witness:
  "generateReply blank_backend greeting (ascii ''Hello'') = Inr getFallbackMessage
   \<and> generateReply_effects blank_backend greeting (ascii ''Hello'') =
       [Call (buildPrompt greeting (ascii ''Hello'')), Sleep 1000,
        Call (buildPrompt greeting (ascii ''Hello''))]"
proof -
  let ?p = "buildPrompt greeting (ascii ''Hello'')"
  let ?X = "ascii '' \<newline> ''"
  have k: "(1::nat) < MAX_RETRIES"
    by (simp add: MAX_RETRIES_def)
  have before: "\<forall>j<1. \<exists>error. awaited (blank_backend j ?p) = Inl error
      \<and> classify error = Retryable"
    by (simp add: awaited_def blank_backend_def classify_timeout)
  have at: "awaited (blank_backend 1 ?p) = Inr ?X"
    by (simp add: awaited_def blank_backend_def)
  have ws: "\<forall>c\<in>set ?X. isWhiteSpace c"
    by (simp add: ascii_def isWhiteSpace_def)
  from blank_success_no_retry [of 1 blank_backend greeting "ascii ''Hello''" ?X, OF k before at ws]
  show ?thesis
    by (simp add: RETRY_DELAY_MS_def)
qed

section \<open>Claims about the prompt\<close>

text \<open>
  Claim C7. When the estimate \<^verbatim>\<open>length / 4\<close> of the serialized history exceeds
  \<^verbatim>\<open>MAX_INPUT_TOKENS\<close> = 4000, that is, when the serialized history has more than 16000
  code units, the prompt holds only its last 16000 code units; a serialized history of at
  most 16000 code units is included unchanged; in both cases the whole user message is part
  of the prompt, and this prompt is what every request of the call sends to the backend.
\<close>

theorem prompt_keeps_history_tail:
  "(of_nat MAX_INPUT_TOKENS < (of_nat (length (formatHistory history)) :: rat) / 4 \<longrightarrow>
      truncateHistory (formatHistory history)
        = drop (length (formatHistory history) - MAX_INPUT_TOKENS * 4) (formatHistory history)
      \<and> length (truncateHistory (formatHistory history)) = 16000)
   \<and> (length (formatHistory history) \<le> 16000 \<longrightarrow>
        truncateHistory (formatHistory history) = formatHistory history)
   \<and> buildPrompt history userMessage =
        SYSTEM_PROMPT @ ascii ''\<newline>\<newline>Conversation History:\<newline>''
        @ truncateHistory (formatHistory history)
        @ ascii ''\<newline>\<newline>User: '' @ userMessage @ ascii ''\<newline>\<newline>Assistant:''
   \<and> calls (generateReply_effects be history userMessage) \<noteq> []
   \<and> (\<forall>p\<in>set (calls (generateReply_effects be history userMessage)).
         p = buildPrompt history userMessage)"
proof -
  have long: "truncateHistory s = drop (length s - MAX_INPUT_TOKENS * 4) s
      \<and> length (truncateHistory s) = 16000"
    if "of_nat MAX_INPUT_TOKENS < (of_nat (length s) :: rat) / 4" for s
  proof -
    from that have "16000 < length s"
      by (simp add: MAX_INPUT_TOKENS_def)
    then show ?thesis
      by (simp add: truncateHistory_long MAX_INPUT_TOKENS_def)
  qed
  have sent: "\<forall>p\<in>set (calls (generateReply_effects be history userMessage)).
         p = buildPrompt history userMessage"
    by (auto simp: generateReply_effects_def dest: loop_calls_prompt)
  have short: "length (formatHistory history) \<le> 16000 \<longrightarrow>
        truncateHistory (formatHistory history) = formatHistory history"
    by (simp add: truncateHistory_short)
  have shape: "buildPrompt history userMessage =
        SYSTEM_PROMPT @ ascii ''\<newline>\<newline>Conversation History:\<newline>''
        @ truncateHistory (formatHistory history)
        @ ascii ''\<newline>\<newline>User: '' @ userMessage @ ascii ''\<newline>\<newline>Assistant:''"
    by (simp add: buildPrompt_def Let_def)
  have some: "calls (generateReply_effects be history userMessage) \<noteq> []"
    unfolding generateReply_effects_def by (rule first_call)
  from long [of "formatHistory history"] short shape some sent show ?thesis
    by blast
qed

theorem prompt_keeps_history_tail_witness:
  "truncateHistory (formatHistory long_history) = replicate 16000 0x61
   \<and> length (formatHistory long_history) = 16006
   \<and> truncateHistory (formatHistory greeting) = ascii ''User: Hi''
   \<and> buildPrompt greeting (ascii ''Hello'') \<in> set (calls (generateReply_effects silent_backend greeting (ascii ''Hello'')))"
proof -
  have f: "formatHistory long_history = ascii ''User: '' @ replicate 16000 0x61"
    by (simp add: formatHistory_def long_history_def ascii_def)
  have len: "length (formatHistory long_history) = 16006"
    by (simp add: f ascii_def)
  then have over: "of_nat MAX_INPUT_TOKENS < (of_nat (length (formatHistory long_history)) :: rat) / 4"
    by (simp add: MAX_INPUT_TOKENS_def)
  from prompt_keeps_history_tail [of long_history "ascii ''Hello''" silent_backend] over
  have "truncateHistory (formatHistory long_history)
      = drop (length (formatHistory long_history) - MAX_INPUT_TOKENS * 4) (formatHistory long_history)"
    by blast
  also have "\<dots> = replicate 16000 0x61"
    by (simp add: len MAX_INPUT_TOKENS_def) (simp add: f ascii_def)
  finally have a: "truncateHistory (formatHistory long_history) = replicate 16000 0x61" .
  have g: "formatHistory greeting = ascii ''User: Hi''"
    by (simp add: formatHistory_def greeting_def ascii_def)
  then have "length (formatHistory greeting) \<le> 16000"
    by (simp add: ascii_def)
  with prompt_keeps_history_tail [of greeting "ascii ''Hello''" silent_backend]
  have "truncateHistory (formatHistory greeting) = formatHistory greeting"
    and "calls (generateReply_effects silent_backend greeting (ascii ''Hello'')) \<noteq> []"
    and "\<forall>p\<in>set (calls (generateReply_effects silent_backend greeting (ascii ''Hello''))).
         p = buildPrompt greeting (ascii ''Hello'')"
    by blast+
  then have "truncateHistory (formatHistory greeting) = ascii ''User: Hi''"
    and "buildPrompt greeting (ascii ''Hello'') \<in> set (calls (generateReply_effects silent_backend greeting (ascii ''Hello'')))"
    using g by (simp, metis last_in_set)
  with a len show ?thesis
    by blast
qed

text \<open>
  Claim C8. Each turn is serialized as its role label, a colon and a space, and its text,
  where the sender \<^verbatim>\<open>user\<close> has the label \<^verbatim>\<open>User\<close> and the sender \<^verbatim>\<open>ai\<close> the label
  \<^verbatim>\<open>Assistant\<close>; the lines are joined by a newline with the oldest turn first, so that a
  newer turn is appended after a newline. The prompt is the system prompt, then the
  serialized (and truncated) history, then the user message, then the assistant cue, in
  this order, and every request of the call sends it.
\<close>

theorem serialization_and_prompt_order:
  assumes "\<forall>t\<in>set history. sender t = ascii ''user'' \<or> sender t = ascii ''ai''"
    and "sender t = ascii ''user'' \<or> sender t = ascii ''ai''"
  shows "formatHistory history = join (ascii ''\<newline>'') (map spec_line history)
       \<and> formatHistory (history @ [t]) =
           (if history = [] then spec_line t
            else formatHistory history @ ascii ''\<newline>'' @ spec_line t)
       \<and> buildPrompt history userMessage =
           SYSTEM_PROMPT @ ascii ''\<newline>\<newline>Conversation History:\<newline>''
           @ truncateHistory (formatHistory history)
           @ ascii ''\<newline>\<newline>User: '' @ userMessage @ ascii ''\<newline>\<newline>Assistant:''
       \<and> calls (generateReply_effects be history userMessage) \<noteq> []
       \<and> (\<forall>p\<in>set (calls (generateReply_effects be history userMessage)).
             p = buildPrompt history userMessage)"
proof -
  have a: "formatHistory history = join (ascii ''\<newline>'') (map spec_line history)"
    unfolding formatHistory_def using assms(1) by (simp only: formatHistory_spec)
  from assms have "\<forall>u\<in>set (history @ [t]). sender u = ascii ''user'' \<or> sender u = ascii ''ai''"
    by auto
  then have "formatHistory (history @ [t]) = join (ascii ''\<newline>'') (map spec_line (history @ [t]))"
    unfolding formatHistory_def by (simp only: formatHistory_spec)
  then have b: "formatHistory (history @ [t]) =
           (if history = [] then spec_line t
            else formatHistory history @ ascii ''\<newline>'' @ spec_line t)"
    by (simp add: join_snoc a)
  have c: "buildPrompt history userMessage =
        SYSTEM_PROMPT @ ascii ''\<newline>\<newline>Conversation History:\<newline>''
        @ truncateHistory (formatHistory history)
        @ ascii ''\<newline>\<newline>User: '' @ userMessage @ ascii ''\<newline>\<newline>Assistant:''"
    by (simp add: buildPrompt_def Let_def)
  have d: "calls (generateReply_effects be history userMessage) \<noteq> []"
    unfolding generateReply_effects_def by (rule first_call)
  have e: "\<forall>p\<in>set (calls (generateReply_effects be history userMessage)).
         p = buildPrompt history userMessage"
    by (auto simp: generateReply_effects_def dest: loop_calls_prompt)
  from a b c d e show ?thesis
    by blast
qed

theorem serialization_and_prompt_order_witness:
  "formatHistory dialogue = ascii ''User: Hi\<newline>Assistant: Hello!''
   \<and> formatHistory (dialogue @ [\<lparr>sender = ascii ''user'', text = ascii ''Bye''\<rparr>])
       = ascii ''User: Hi\<newline>Assistant: Hello!\<newline>User: Bye''
   \<and> buildPrompt dialogue (ascii ''Bye'') \<in> set (calls (generateReply_effects silent_backend dialogue (ascii ''Bye'')))"
proof -
  let ?t = "\<lparr>sender = ascii ''user'', text = ascii ''Bye''\<rparr>"
  have h: "\<forall>t\<in>set dialogue. sender t = ascii ''user'' \<or> sender t = ascii ''ai''"
    by (simp add: dialogue_def)
  have t: "sender ?t = ascii ''user'' \<or> sender ?t = ascii ''ai''"
    by simp
  note r = serialization_and_prompt_order [of dialogue ?t "ascii ''Bye''" silent_backend, OF h t]
  have lines: "map spec_line dialogue = [ascii ''User: Hi'', ascii ''Assistant: Hello!'']"
    by (simp add: dialogue_def spec_line_def ascii_def)
  from r have "formatHistory dialogue = join (ascii ''\<newline>'') (map spec_line dialogue)"
    by blast
  then have a: "formatHistory dialogue = ascii ''User: Hi\<newline>Assistant: Hello!''"
    unfolding lines by (simp add: ascii_def)
  have ne: "dialogue \<noteq> []"
    by (simp add: dialogue_def)
  from r ne have "formatHistory (dialogue @ [?t]) = formatHistory dialogue @ ascii ''\<newline>'' @ spec_line ?t"
    by simp
  then have b: "formatHistory (dialogue @ [?t]) = ascii ''User: Hi\<newline>Assistant: Hello!\<newline>User: Bye''"
    unfolding a by (simp add: spec_line_def ascii_def)
  from r have "calls (generateReply_effects silent_backend dialogue (ascii ''Bye'')) \<noteq> []"
    and "\<forall>p\<in>set (calls (generateReply_effects silent_backend dialogue (ascii ''Bye''))).
         p = buildPrompt dialogue (ascii ''Bye'')"
    by blast+
  then have c: "buildPrompt dialogue (ascii ''Bye'') \<in> set (calls (generateReply_effects silent_backend dialogue (ascii ''Bye'')))"
    by (metis last_in_set)
  from a b c show ?thesis
    by blast
qed

section \<open>Claims relating two runs\<close>

text \<open>
  Claim C9. Two calls with the same history and user message return the same string and
  have the same effects whenever the backend gives the same outcome to each of the
  attempts for the prompt of that history and message; in particular when the backend is a
  function of the prompt alone. The reply depends on nothing else.
\<close>

theorem reply_determined_by_outcomes:
  assumes "\<forall>k<MAX_RETRIES. be1 k (buildPrompt history userMessage) = be2 k (buildPrompt history userMessage)"
  shows "generateReply be1 history userMessage = generateReply be2 history userMessage
       \<and> generateReply_effects be1 history userMessage = generateReply_effects be2 history userMessage"
  using loop_cong [of be1 history userMessage be2 0] assms
  by (simp add: generateReply_def generateReply_effects_def)

theorem reply_determined_by_outcomes_witness:
  "generateReply slow_backend greeting (ascii ''Hello'') = generateReply slow_backend_later greeting (ascii ''Hello'')
   \<and> generateReply_effects slow_backend greeting (ascii ''Hello'')
     = generateReply_effects slow_backend_later greeting (ascii ''Hello'')
   \<and> slow_backend 3 (buildPrompt greeting (ascii ''Hello'')) \<noteq> slow_backend_later 3 (buildPrompt greeting (ascii ''Hello''))"
proof -
  have "\<forall>k<MAX_RETRIES. slow_backend k (buildPrompt greeting (ascii ''Hello''))
      = slow_backend_later k (buildPrompt greeting (ascii ''Hello''))"
    by (simp add: slow_backend_def slow_backend_later_def MAX_RETRIES_def)
  from reply_determined_by_outcomes [of slow_backend greeting "ascii ''Hello''" slow_backend_later, OF this]
  show ?thesis
    by (simp add: slow_backend_def slow_backend_later_def)
qed



section \<open>The classification of failures\<close>

text \<open>
  Claim C4 says that every failure other than an authentication, authorization or
  validation failure is retried while attempts remain. The handler decides by searching
  the message for the markers \<^verbatim>\<open>API_KEY\<close>, \<^verbatim>\<open>401\<close>, \<^verbatim>\<open>403\<close>, \<^verbatim>\<open>400\<close> and \<^verbatim>\<open>invalid\<close>.
  A rate-limit failure whose message asks to retry in 28.400347014 seconds contains the
  marker \<^verbatim>\<open>400\<close>: for it the call sends one request and returns the fallback message at
  once, although two attempts remain.
\<close>

theorem rate_limit_failure_abandoned:
  "awaited (rate_limited_backend 0 (buildPrompt greeting (ascii ''Hello'')))
     = Inl (ErrorObject (StringMessage (ascii ''[429 Too Many Requests] You exceeded your current quota. Please retry in 28.400347014s.'')))
   \<and> nonRetryable (ascii ''[429 Too Many Requests] You exceeded your current quota. Please retry in 28.400347014s.'')
   \<and> generateReply_effects rate_limited_backend greeting (ascii ''Hello'')
       = [Call (buildPrompt greeting (ascii ''Hello''))]
   \<and> generateReply rate_limited_backend greeting (ascii ''Hello'') = Inr getFallbackMessage"
proof -
  let ?msg = "ascii ''[429 Too Many Requests] You exceeded your current quota. Please retry in 28.400347014s.''"
  have a: "awaited (rate_limited_backend 0 (buildPrompt greeting (ascii ''Hello''))) = Inl (ErrorObject (StringMessage ?msg))"
    by (simp add: awaited_def rate_limited_backend_def)
  have b: "nonRetryable ?msg"
    by (simp add: nonRetryable_def ascii_def)
  then have "classify (ErrorObject (StringMessage ?msg)) = NonRetryable"
    by (simp add: classify_string)
  from loop_abandon [of 0 rate_limited_backend greeting "ascii ''Hello''", OF _ a this]
  have "generateReply_loop rate_limited_backend greeting (ascii ''Hello'') 0
      = ([Call (buildPrompt greeting (ascii ''Hello''))], Inr getFallbackMessage)"
    by (simp add: MAX_RETRIES_def)
  with a b show ?thesis
    by (simp add: generateReply_def generateReply_effects_def)
qed

end
